theory Spec2Isabelle
  imports Main "HOL-Library.Sublist" "HOL-Library.Log_Nat"
begin

section \<open>Python floats\<close>

text \<open>
  \<open>main\<close> reads every amount with \<open>float(input(...))\<close>, so the amounts of
  \<open>depositar\<close> and \<open>sacar\<close> are Python floats: IEEE 754 binary64 numbers, with the
  two infinities and NaN (\<open>float\<close> accepts the inputs \<open>inf\<close> and \<open>nan\<close>). A finite
  float is modelled by the rational number it stands for. Every float is a value of
  this type; the type also holds rationals that are not binary64 numbers, which no
  result of an operation is. The sign of zero is not represented: the comparisons of
  the program do not see it.

  \<open>main\<close> also passes two \<open>int\<close> literals, the initial \<open>saldo = 0\<close> and
  \<open>limite = 500\<close>. Python compares an \<open>int\<close> with a float by value and converts
  it to the float of the same value before adding it to a float; for these two the
  floats \<open>Finito 0\<close> and \<open>Finito 500\<close> stand.
\<close>

datatype pyfloat = Finito rat | Infinito bool | NaN

definition pot2 :: "int \<Rightarrow> rat" where
  "pot2 e = (if e \<ge> 0 then 2 ^ nat e else 1 / 2 ^ nat (- e))"

text \<open>For \<open>a > 0\<close>, the exponent \<open>e\<close> with \<open>2^e \<le> a < 2^(e+1)\<close>.\<close>

definition expoente :: "rat \<Rightarrow> int" where
  "expoente a =
     (case quotient_of a of (p, q) \<Rightarrow>
        let d = bitlen p - bitlen q
        in if pot2 d \<le> a then d else d - 1)"

text \<open>Rounding to the nearest integer, a tie going to the even one.\<close>

definition arredonda_par :: "rat \<Rightarrow> int" where
  "arredonda_par s =
     (let f = \<lfloor>s\<rfloor>; r = s - of_int f
      in if r < 1 / 2 then f
         else if r > 1 / 2 then f + 1
         else if even f then f else f + 1)"

text \<open>
  The binary64 number nearest to a rational, ties to even: 53 significant bits, the
  unit in the last place no smaller than \<open>2^-1074\<close>. The largest finite float is
  \<open>(2^53 - 1) * 2^971\<close>; what rounds beyond it is an infinity.
\<close>

definition arred :: "rat \<Rightarrow> pyfloat" where
  "arred x =
     (if x = 0 then Finito 0
      else
        let a = \<bar>x\<bar>;
            u = max (expoente a - 52) (- 1074);
            m = arredonda_par (a / pot2 u)
        in if u > 971 \<or> (u = 971 \<and> m \<ge> 9007199254740992) then Infinito (x > 0)
           else Finito (if x > 0 then of_int m * pot2 u else - (of_int m * pot2 u)))"

text \<open>\<open>a + b\<close>, \<open>a - b\<close>, \<open>-a\<close> and \<open>a > b\<close> on floats. \<open>Infinito True\<close> is
  \<open>inf\<close>, \<open>Infinito False\<close> is \<open>-inf\<close>; every comparison with NaN is false.\<close>

fun somar :: "pyfloat \<Rightarrow> pyfloat \<Rightarrow> pyfloat" where
  "somar NaN b = NaN"
| "somar a NaN = NaN"
| "somar (Infinito s) (Infinito t) = (if s = t then Infinito s else NaN)"
| "somar (Infinito s) (Finito y) = Infinito s"
| "somar (Finito x) (Infinito t) = Infinito t"
| "somar (Finito x) (Finito y) = arred (x + y)"

fun subtrair :: "pyfloat \<Rightarrow> pyfloat \<Rightarrow> pyfloat" where
  "subtrair NaN b = NaN"
| "subtrair a NaN = NaN"
| "subtrair (Infinito s) (Infinito t) = (if s = t then NaN else Infinito s)"
| "subtrair (Infinito s) (Finito y) = Infinito s"
| "subtrair (Finito x) (Infinito t) = Infinito (\<not> t)"
| "subtrair (Finito x) (Finito y) = arred (x - y)"

fun negar :: "pyfloat \<Rightarrow> pyfloat" where
  "negar NaN = NaN"
| "negar (Infinito s) = Infinito (\<not> s)"
| "negar (Finito x) = Finito (- x)"

fun maior :: "pyfloat \<Rightarrow> pyfloat \<Rightarrow> bool" where
  "maior NaN b = False"
| "maior a NaN = False"
| "maior (Infinito s) (Infinito t) = (s \<and> \<not> t)"
| "maior (Infinito s) (Finito y) = s"
| "maior (Finito x) (Infinito t) = (\<not> t)"
| "maior (Finito x) (Finito y) = (x > y)"


section \<open>Sistema bancario (desafio.py): data model\<close>

text \<open>
  A transaction is the pair \<open>(tipo, valor)\<close> that \<open>depositar\<close> and \<open>sacar\<close> append
  to \<open>extrato\<close>; \<open>extrato\<close> is a Python list, mutated in place by \<open>append\<close> and
  returned, which the model renders by returning the extended list.

  Strings are lists of code points below 256 (\<open>char\<close>), which covers the text of this
  program: the kind "Deposito" is spelt with an accented o, the code point \<open>0xF3\<close>.
\<close>

type_synonym movimento = "string \<times> pyfloat"
type_synonym extrato = "movimento list"

definition tipo_deposito :: string where
  "tipo_deposito = ''Dep'' @ [CHR 0xF3] @ ''sito''"

definition tipo_saque :: string where
  "tipo_saque = ''Saque''"

text \<open>Python exceptions that the modelled code can raise.\<close>

datatype erro = StopIteration | KeyError string | TypeError | EOFError

text \<open>
  A line written to standard output. Each constructor stands for one \<open>print\<close> (or
  \<open>input\<close> prompt) of the source; the number formatting \<open>:.2f\<close>, which accepts
  every float, and the upper-casing of the function name in the audit line belong to
  the rendering of the line and are not modelled.
  \<^item> \<open>DepositoRealizado v\<close>: "Deposito de R$ v realizado com sucesso!"
  \<^item> \<open>OperacaoFalhou\<close>: "Operacao falhou! O valor informado e invalido."
  \<^item> \<open>SaldoInsuficiente\<close>: "Saldo insuficiente."
  \<^item> \<open>ValorExcedeLimite\<close>: "Valor excede o limite permitido."
  \<^item> \<open>MaximoSaquesAtingido\<close>: "Numero maximo de saques atingido."
  \<^item> \<open>SaqueRealizado v\<close>: "Saque de R$ v realizado com sucesso!"
  \<^item> \<open>ValorInvalido\<close>: "Valor invalido."
  \<^item> \<open>InformeCpfTitular\<close>: the prompt "Informe o CPF do titular: "
  \<^item> \<open>ContaCriada\<close>: "Conta criada com sucesso!"
  \<^item> \<open>UsuarioNaoEncontrado\<close>: "Usuario nao encontrado. Criacao de conta encerrada."
  \<^item> \<open>TransacaoExecutada t nome\<close>: "[t] Transacao executada: NOME", the audit line of
    \<open>registrar_transacao\<close>, with the time \<open>t\<close> read from the clock.
  (The accents of the source's messages are left out of this list.)
\<close>

datatype linha =
    DepositoRealizado pyfloat
  | OperacaoFalhou
  | SaldoInsuficiente
  | ValorExcedeLimite
  | MaximoSaquesAtingido
  | SaqueRealizado pyfloat
  | ValorInvalido
  | InformeCpfTitular
  | ContaCriada
  | UsuarioNaoEncontrado
  | TransacaoExecutada nat string

text \<open>
  The world outside the functions: the lines still to be read from standard input, the
  lines written to standard output so far, and the clock that \<open>datetime.now()\<close> reads.
  A computation takes the world and returns its result, or the exception it raised,
  with the world it leaves behind.
\<close>

record mundo =
  entrada :: "string list"
  saida :: "linha list"
  relogio :: nat

type_synonym 'a io = "mundo \<Rightarrow> (erro + 'a) \<times> mundo"

definition imprimir :: "linha \<Rightarrow> mundo \<Rightarrow> mundo" where
  "imprimir l w = w\<lparr>saida := saida w @ [l]\<rparr>"

text \<open>\<open>input(prompt)\<close>: writes the prompt, then reads one line; raises \<open>EOFError\<close>
  when standard input is exhausted.\<close>

definition ler :: "linha \<Rightarrow> string io" where
  "ler prompt w =
     (case entrada w of
        [] \<Rightarrow> (Inl EOFError, imprimir prompt w)
      | l # ls \<Rightarrow> (Inr l, (imprimir prompt w)\<lparr>entrada := ls\<rparr>))"

text \<open>The lines written between two worlds, the second reached from the first.\<close>

definition mensagens :: "mundo \<Rightarrow> mundo \<Rightarrow> linha list" where
  "mensagens w w' = drop (length (saida w)) (saida w')"


section \<open>The logging decorator\<close>

text \<open>
  \<open>registrar_transacao(func)\<close> returns \<open>wrapper\<close>: it calls \<open>func\<close> with the arguments
  it was given, then prints the audit line, then returns the result of \<open>func\<close>. There
  is no \<open>try\<close>: an exception raised by \<open>func\<close> leaves \<open>wrapper\<close> before the
  \<open>print\<close>. The first argument is \<open>func.__name__\<close>.
\<close>

definition registrar_transacao :: "string \<Rightarrow> ('a \<Rightarrow> 'b io) \<Rightarrow> 'a \<Rightarrow> 'b io" where
  "registrar_transacao nome func args w =
     (case func args w of
        (Inl e, w') \<Rightarrow> (Inl e, w')
      | (Inr resultado, w') \<Rightarrow>
          (Inr resultado, imprimir (TransacaoExecutada (relogio w') nome) w'))"


section \<open>Deposit and withdrawal\<close>

text \<open>The body of \<open>depositar\<close>, before decoration. \<open>saldo += valor\<close> is the float
  addition, which rounds.\<close>

definition depositar_corpo ::
  "pyfloat \<times> pyfloat \<times> extrato \<Rightarrow> (pyfloat \<times> extrato) io" where
  "depositar_corpo = (\<lambda>(saldo, valor, extrato) w.
     if maior valor (Finito 0)
     then (Inr (somar saldo valor, extrato @ [(tipo_deposito, valor)]),
           imprimir (DepositoRealizado valor) w)
     else (Inr (saldo, extrato), imprimir OperacaoFalhou w))"

definition depositar ::
  "pyfloat \<Rightarrow> pyfloat \<Rightarrow> extrato \<Rightarrow> (pyfloat \<times> extrato) io" where
  "depositar saldo valor extrato =
     registrar_transacao ''depositar'' depositar_corpo (saldo, valor, extrato)"

text \<open>The body of \<open>sacar\<close>, before decoration; the arguments are keyword-only in the
  source and are taken here in the order of the signature. \<open>saldo -= valor\<close> is the
  float subtraction, which rounds; \<open>-valor\<close> is exact. The two counts are \<open>int\<close>.\<close>

definition sacar_corpo ::
  "pyfloat \<times> pyfloat \<times> extrato \<times> pyfloat \<times> int \<times> int
     \<Rightarrow> (pyfloat \<times> extrato \<times> int) io" where
  "sacar_corpo = (\<lambda>(saldo, valor, extrato, limite, numero_saques, limite_saques) w.
     let excedeu_saldo = maior valor saldo;
         excedeu_limite = maior valor limite;
         excedeu_saques = numero_saques \<ge> limite_saques
     in if excedeu_saldo
        then (Inr (saldo, extrato, numero_saques), imprimir SaldoInsuficiente w)
        else if excedeu_limite
        then (Inr (saldo, extrato, numero_saques), imprimir ValorExcedeLimite w)
        else if excedeu_saques
        then (Inr (saldo, extrato, numero_saques), imprimir MaximoSaquesAtingido w)
        else if maior valor (Finito 0)
        then (Inr (subtrair saldo valor, extrato @ [(tipo_saque, negar valor)],
                   numero_saques + 1),
              imprimir (SaqueRealizado valor) w)
        else (Inr (saldo, extrato, numero_saques), imprimir ValorInvalido w))"

definition sacar ::
  "pyfloat \<Rightarrow> pyfloat \<Rightarrow> extrato \<Rightarrow> pyfloat \<Rightarrow> int \<Rightarrow> int
     \<Rightarrow> (pyfloat \<times> extrato \<times> int) io" where
  "sacar saldo valor extrato limite numero_saques limite_saques =
     registrar_transacao ''sacar'' sacar_corpo
       (saldo, valor, extrato, limite, numero_saques, limite_saques)"

text \<open>
  A sequence of calls as the command loop of \<open>main\<close> makes them: the loop keeps
  \<open>saldo\<close>, \<open>extrato\<close> and \<open>numero_saques\<close> and rebinds them to what each call
  returns. A withdrawal carries its amount and the two limits passed with it.
\<close>

datatype chamada = Depositar pyfloat | Sacar pyfloat pyfloat int

type_synonym estado = "pyfloat \<times> extrato \<times> int"

fun executar :: "chamada \<Rightarrow> estado \<Rightarrow> estado io" where
  "executar (Depositar valor) (saldo, extrato, numero_saques) w =
     (case depositar saldo valor extrato w of
        (Inl e, w') \<Rightarrow> (Inl e, w')
      | (Inr (saldo', extrato'), w') \<Rightarrow> (Inr (saldo', extrato', numero_saques), w'))"
| "executar (Sacar valor limite limite_saques) (saldo, extrato, numero_saques) w =
     sacar saldo valor extrato limite numero_saques limite_saques w"

fun executar_todas :: "chamada list \<Rightarrow> estado \<Rightarrow> estado io" where
  "executar_todas [] st w = (Inr st, w)"
| "executar_todas (c # cs) st w =
     (case executar c st w of
        (Inl e, w') \<Rightarrow> (Inl e, w')
      | (Inr st', w') \<Rightarrow> executar_todas cs st' w')"

text \<open>The number of successful withdrawals among the lines written.\<close>

definition saques_realizados :: "linha list \<Rightarrow> nat" where
  "saques_realizados ls =
     length (filter (\<lambda>l. case l of SaqueRealizado v \<Rightarrow> True | _ \<Rightarrow> False) ls)"


section \<open>The report generator\<close>

text \<open>
  \<open>str.lower()\<close> on code points below 256: the letters A to Z and the accented
  capitals \<open>0xC0\<close> to \<open>0xDE\<close> (the multiplication sign \<open>0xD7\<close> apart) move up by
  32; every other code point stays.
\<close>

definition lower_char :: "char \<Rightarrow> char" where
  "lower_char c =
     (let n = (of_char c :: nat)
      in if (65 \<le> n \<and> n \<le> 90) \<or> (192 \<le> n \<and> n \<le> 222 \<and> n \<noteq> 215)
         then char_of (n + 32) else c)"

definition lower :: "string \<Rightarrow> string" where
  "lower s = map lower_char s"

text \<open>
  \<open>gerar_relatorio\<close> is a generator; the model is the list of the values it yields
  when run to its end. \<open>tipo is None or ...\<close> short-circuits, so \<open>tipo.lower()\<close> is
  reached only with a string.
\<close>

fun gerar_relatorio :: "extrato \<Rightarrow> string option \<Rightarrow> extrato" where
  "gerar_relatorio [] tipo = []"
| "gerar_relatorio (t # transacoes) tipo =
     (if (case tipo of None \<Rightarrow> True | Some f \<Rightarrow> lower (fst t) = lower f)
      then t # gerar_relatorio transacoes tipo
      else gerar_relatorio transacoes tipo)"

text \<open>
  Matching up to case, stated on the letters themselves. The capitals among the code
  points below 256 are A to Z and the accented capitals \<open>0xC0\<close> to \<open>0xD6\<close> and
  \<open>0xD8\<close> to \<open>0xDE\<close>; the small form of a capital lies 32 code points above it.
  Two strings match case-insensitively when they have the same length and, position by
  position, the same letter or a capital and its small form.
\<close>

definition maiuscula :: "char \<Rightarrow> bool" where
  "maiuscula c = ((of_char c :: nat) \<in> {65..90} \<union> {192..214} \<union> {216..222})"

definition minuscula_de :: "char \<Rightarrow> char \<Rightarrow> bool" where
  "minuscula_de c d = (maiuscula c \<and> (of_char d :: nat) = of_char c + 32)"

definition mesma_letra :: "char \<Rightarrow> char \<Rightarrow> bool" where
  "mesma_letra c d = (c = d \<or> minuscula_de c d \<or> minuscula_de d c)"

definition igual_sem_caixa :: "string \<Rightarrow> string \<Rightarrow> bool" where
  "igual_sem_caixa a b = list_all2 mesma_letra a b"


section \<open>Users and accounts\<close>

text \<open>
  A user is the dict built by \<open>criar_usuario\<close>, from field names to strings; an
  account is the dict built by \<open>criar_conta\<close>, whose values are of several types.
  Dicts are association lists in insertion order; \<open>d[k]\<close> raises \<open>KeyError\<close> on a
  missing key.
\<close>

type_synonym usuario = "(string \<times> string) list"

datatype valor = VStr string | VInt int | VUsuario usuario | VExtrato extrato

type_synonym conta = "(string \<times> valor) list"

definition item :: "(string \<times> 'v) list \<Rightarrow> string \<Rightarrow> erro + 'v" where
  "item d k = (case map_of d k of None \<Rightarrow> Inl (KeyError k) | Some v \<Rightarrow> Inr v)"

text \<open>The list comprehension of \<open>filtrar_usuario\<close>: it reads \<open>u["cpf"]\<close> of every
  user, in order, and stops at the first exception.\<close>

fun usuarios_filtrados :: "string \<Rightarrow> usuario list \<Rightarrow> erro + usuario list" where
  "usuarios_filtrados cpf [] = Inr []"
| "usuarios_filtrados cpf (u # usuarios) =
     (case item u ''cpf'' of
        Inl e \<Rightarrow> Inl e
      | Inr c \<Rightarrow>
          (case usuarios_filtrados cpf usuarios of
             Inl e \<Rightarrow> Inl e
           | Inr us \<Rightarrow> Inr (if c = cpf then u # us else us)))"

definition filtrar_usuario :: "string \<Rightarrow> usuario list \<Rightarrow> erro + usuario option" where
  "filtrar_usuario cpf usuarios =
     (case usuarios_filtrados cpf usuarios of
        Inl e \<Rightarrow> Inl e
      | Inr [] \<Rightarrow> Inr None
      | Inr (u # us) \<Rightarrow> Inr (Some u))"

text \<open>
  The body of \<open>criar_conta\<close>. \<open>if usuario:\<close> tests the truth value of what
  \<open>filtrar_usuario\<close> returned: \<open>None\<close> and the empty dict are false. When the test
  fails the function prints and falls off its end, returning \<open>None\<close>.
\<close>

definition criar_conta_corpo :: "string \<times> int \<times> usuario list \<Rightarrow> conta option io" where
  "criar_conta_corpo = (\<lambda>(agencia, numero_conta, usuarios) w.
     case ler InformeCpfTitular w of
       (Inl e, w1) \<Rightarrow> (Inl e, w1)
     | (Inr cpf, w1) \<Rightarrow>
         (case filtrar_usuario cpf usuarios of
            Inl e \<Rightarrow> (Inl e, w1)
          | Inr usuario \<Rightarrow>
              if usuario \<noteq> None \<and> usuario \<noteq> Some []
              then (Inr (Some [(''agencia'', VStr agencia),
                               (''numero_conta'', VInt numero_conta),
                               (''usuario'', VUsuario (the usuario)),
                               (''saldo'', VInt 0),
                               (''extrato'', VExtrato [])]),
                    imprimir ContaCriada w1)
              else (Inr None, imprimir UsuarioNaoEncontrado w1)))"

definition criar_conta :: "string \<Rightarrow> int \<Rightarrow> usuario list \<Rightarrow> conta option io" where
  "criar_conta agencia numero_conta usuarios =
     registrar_transacao ''criar_conta'' criar_conta_corpo (agencia, numero_conta, usuarios)"


section \<open>The account iterator\<close>

text \<open>
  An instance of \<open>ContasIterator\<close>: the list it was created on and its index.
  \<open>__next__\<close> raises \<open>StopIteration\<close> at the end of the list; otherwise it advances
  the index first and then builds the tuple, so a failing lookup leaves the index
  advanced.
\<close>

record contas_iterator =
  contas :: "conta list"
  indice :: nat

definition ContasIterator :: "conta list \<Rightarrow> contas_iterator" where
  "ContasIterator cs = \<lparr>contas = cs, indice = 0\<rparr>"

type_synonym resumo = "valor \<times> string \<times> valor"

definition resumo_conta :: "conta \<Rightarrow> erro + resumo" where
  "resumo_conta conta =
     (case item conta ''numero_conta'' of
        Inl e \<Rightarrow> Inl e
      | Inr numero \<Rightarrow>
          (case item conta ''usuario'' of
             Inl e \<Rightarrow> Inl e
           | Inr (VUsuario u) \<Rightarrow>
               (case item u ''nome'' of
                  Inl e \<Rightarrow> Inl e
                | Inr nome \<Rightarrow>
                    (case item conta ''saldo'' of
                       Inl e \<Rightarrow> Inl e
                     | Inr saldo \<Rightarrow> Inr (numero, nome, saldo)))
           | Inr _ \<Rightarrow> Inl TypeError))"

definition proximo :: "contas_iterator \<Rightarrow> (erro + resumo) \<times> contas_iterator" where
  "proximo it =
     (if indice it < length (contas it)
      then (let conta = contas it ! indice it;
                it' = it\<lparr>indice := indice it + 1\<rparr>
            in (resumo_conta conta, it'))
      else (Inl StopIteration, it))"

text \<open>
  The \<open>for\<close> loop of \<open>listar_contas\<close>: it calls \<open>__next__\<close> until
  \<open>StopIteration\<close> and collects what was yielded; any other exception leaves the loop.
  The iterator is returned as the loop leaves it.
\<close>

function esgotar :: "contas_iterator \<Rightarrow> (erro + resumo list) \<times> contas_iterator" where
  "esgotar it =
     (case proximo it of
        (Inl StopIteration, it') \<Rightarrow> (Inr [], it')
      | (Inl e, it') \<Rightarrow> (Inl e, it')
      | (Inr t, it') \<Rightarrow>
          (case esgotar it' of
             (Inl e, it'') \<Rightarrow> (Inl e, it'')
           | (Inr ts, it'') \<Rightarrow> (Inr (t # ts), it'')))"
  by pat_completeness auto
termination
  by (relation "measure (\<lambda>it. length (contas it) - indice it)")
     (auto simp: proximo_def Let_def split: if_splits)

declare esgotar.simps [simp del]


text \<open>\<open>n\<close> further calls of \<open>__next__\<close> on the same instance, their results dropped.\<close>

fun avancar :: "nat \<Rightarrow> contas_iterator \<Rightarrow> contas_iterator" where
  "avancar 0 it = it"
| "avancar (Suc n) it = avancar n (snd (proximo it))"



text \<open>
  The instance does not copy the directory: \<open>self._contas = contas\<close> keeps a reference
  to the list of the caller, and \<open>contas\<close> above is that list as it is when
  \<open>__next__\<close> runs. When the caller appends an account to its list
  (\<open>contas.append(conta)\<close> in \<open>main\<close>), every instance created on the list sees it.
\<close>

definition contas_append :: "conta \<Rightarrow> contas_iterator \<Rightarrow> contas_iterator" where
  "contas_append c it = it\<lparr>contas := contas it @ [c]\<rparr>"

section \<open>Vocabulary of the properties\<close>

text \<open>A history entry is signed: a deposit is stored with a positive amount, a
  withdrawal with a negative one.\<close>

definition assinado :: "movimento \<Rightarrow> bool" where
  "assinado m = ((fst m = tipo_deposito \<and> maior (snd m) (Finito 0))
                 \<or> (fst m = tipo_saque \<and> maior (Finito 0) (snd m)))"

text \<open>The sum of a list of floats as the program accumulates it: from 0, one float
  addition per element, in the order of the list.\<close>

definition soma_float :: "pyfloat list \<Rightarrow> pyfloat" where
  "soma_float vs = foldl somar (Finito 0) vs"

text \<open>An account dict that has the three entries \<open>__next__\<close> reads, its owner being a
  user dict with a name.\<close>

definition conta_bem_formada :: "conta \<Rightarrow> bool" where
  "conta_bem_formada c =
     (map_of c ''numero_conta'' \<noteq> None \<and> map_of c ''saldo'' \<noteq> None \<and>
      (case map_of c ''usuario'' of
         Some (VUsuario u) \<Rightarrow> map_of u ''nome'' \<noteq> None
       | _ \<Rightarrow> False))"

text \<open>The tuple \<open>(numero, nome, saldo)\<close> is the summary of the account \<open>c\<close>.\<close>

definition corresponde :: "conta \<Rightarrow> resumo \<Rightarrow> bool" where
  "corresponde c t =
     (case t of (numero, nome, saldo) \<Rightarrow>
        map_of c ''numero_conta'' = Some numero \<and>
        (case map_of c ''usuario'' of
           Some (VUsuario u) \<Rightarrow> map_of u ''nome'' = Some nome
         | _ \<Rightarrow> False) \<and>
        map_of c ''saldo'' = Some saldo)"

text \<open>Values for the examples: the world at the start of the program with nothing to
  read, and a user as \<open>criar_usuario\<close> builds it.\<close>

definition mundo_vazio :: mundo where
  "mundo_vazio = \<lparr>entrada = [], saida = [], relogio = 0\<rparr>"

definition ana :: usuario where
  "ana = [(''nome'', ''Ana''), (''data_nascimento'', ''01-01-1990''),
          (''cpf'', ''111''), (''endereco'', ''Rua A, 1'')]"

text \<open>A directory of two accounts, as \<open>main\<close> holds it after two calls of
  \<open>criar_conta\<close> for that user.\<close>

definition contas_exemplo :: "conta list" where
  "contas_exemplo =
     [[(''agencia'', VStr ''0001''), (''numero_conta'', VInt 1),
       (''usuario'', VUsuario ana), (''saldo'', VInt 0), (''extrato'', VExtrato [])],
      [(''agencia'', VStr ''0001''), (''numero_conta'', VInt 2),
       (''usuario'', VUsuario ana), (''saldo'', VInt 0), (''extrato'', VExtrato [])]]"


section \<open>Float arithmetic at concrete values\<close>

lemma subtrair_soma: "subtrair a b = somar a (negar b)"
  by (cases a; cases b) auto

lemma piso_numerais: "\<lfloor>(numeral a :: rat) / numeral b\<rfloor> = numeral a div numeral b"
  using floor_divide_of_int_eq [of "numeral a" "numeral b", where ?'a = rat] by simp

lemma expoente_exemplos:
  "expoente 70 = 6"
  "expoente 90 = 6"
  "expoente 100 = 6"
  "expoente 10000000000000000 = 53"
  "expoente 10000000000000001 = 53"
  by code_simp+

text \<open>100, 70 and 90 are binary64 numbers, and so is \<open>10^16\<close>; \<open>10^16 + 1\<close> is not,
  and rounds to \<open>10^16\<close>.\<close>

lemma arred_exemplos:
  "arred 70 = Finito 70"
  "arred 90 = Finito 90"
  "arred 100 = Finito 100"
  "arred 10000000000000000 = Finito 10000000000000000"
  "arred 10000000000000001 = Finito 10000000000000000"
  by (simp_all add: arred_def expoente_exemplos pot2_def arredonda_par_def Let_def
        piso_numerais)


section \<open>What one call does\<close>

lemma depositar_eq:
  "depositar saldo valor extrato w =
     (if maior valor (Finito 0)
      then (Inr (somar saldo valor, extrato @ [(tipo_deposito, valor)]),
            w\<lparr>saida := saida w @
                 [DepositoRealizado valor, TransacaoExecutada (relogio w) ''depositar'']\<rparr>)
      else (Inr (saldo, extrato),
            w\<lparr>saida := saida w @
                 [OperacaoFalhou, TransacaoExecutada (relogio w) ''depositar'']\<rparr>))"
  by (simp add: depositar_def depositar_corpo_def registrar_transacao_def imprimir_def)

lemma sacar_eq:
  "sacar saldo valor extrato limite numero_saques limite_saques w =
     (if maior valor saldo
      then (Inr (saldo, extrato, numero_saques),
            w\<lparr>saida := saida w @
                 [SaldoInsuficiente, TransacaoExecutada (relogio w) ''sacar'']\<rparr>)
      else if maior valor limite
      then (Inr (saldo, extrato, numero_saques),
            w\<lparr>saida := saida w @
                 [ValorExcedeLimite, TransacaoExecutada (relogio w) ''sacar'']\<rparr>)
      else if numero_saques \<ge> limite_saques
      then (Inr (saldo, extrato, numero_saques),
            w\<lparr>saida := saida w @
                 [MaximoSaquesAtingido, TransacaoExecutada (relogio w) ''sacar'']\<rparr>)
      else if maior valor (Finito 0)
      then (Inr (subtrair saldo valor, extrato @ [(tipo_saque, negar valor)],
                 numero_saques + 1),
            w\<lparr>saida := saida w @
                 [SaqueRealizado valor, TransacaoExecutada (relogio w) ''sacar'']\<rparr>)
      else (Inr (saldo, extrato, numero_saques),
            w\<lparr>saida := saida w @
                 [ValorInvalido, TransacaoExecutada (relogio w) ''sacar'']\<rparr>))"
  by (simp add: sacar_def sacar_corpo_def registrar_transacao_def imprimir_def Let_def)

lemma mensagens_append [simp]:
  "mensagens w (w'\<lparr>saida := saida w @ ls\<rparr>) = ls"
  by (simp add: mensagens_def)

lemma maior_negar: "maior v (Finito 0) \<Longrightarrow> maior (Finito 0) (negar v)"
  by (cases v) auto

lemma executar_inv:
  assumes "saldo = soma_float (map snd extrato)" and "list_all assinado extrato"
  shows "\<exists>saldo' extrato' n' w' ls.
           executar c (saldo, extrato, n) w = (Inr (saldo', extrato', n'), w')
         \<and> saldo' = soma_float (map snd extrato')
         \<and> list_all assinado extrato'
         \<and> saida w' = saida w @ ls
         \<and> n' = n + int (saques_realizados ls)"
  using assms
  by (cases c)
     (simp_all add: depositar_eq sacar_eq saques_realizados_def assinado_def soma_float_def
        subtrair_soma maior_negar)

lemma executar_todas_inv:
  assumes "saldo = soma_float (map snd extrato)" and "list_all assinado extrato"
  shows "\<exists>saldo' extrato' n' w' ls.
           executar_todas cs (saldo, extrato, n) w = (Inr (saldo', extrato', n'), w')
         \<and> saldo' = soma_float (map snd extrato')
         \<and> list_all assinado extrato'
         \<and> saida w' = saida w @ ls
         \<and> n' = n + int (saques_realizados ls)"
  using assms
proof (induction cs arbitrary: saldo extrato n w)
  case Nil
  then show ?case by (simp add: saques_realizados_def)
next
  case (Cons c cs)
  from executar_inv [OF Cons.prems, of c n w]
  obtain s1 e1 n1 w1 l1 where
    1: "executar c (saldo, extrato, n) w = (Inr (s1, e1, n1), w1)"
    and 2: "s1 = soma_float (map snd e1)" and a1: "list_all assinado e1"
    and 3: "saida w1 = saida w @ l1"
    and 4: "n1 = n + int (saques_realizados l1)"
    by blast
  from Cons.IH [OF 2 a1, of n1 w1]
  obtain s2 e2 n2 w2 l2 where
    5: "executar_todas cs (s1, e1, n1) w1 = (Inr (s2, e2, n2), w2)"
    and 6: "s2 = soma_float (map snd e2)" and a2: "list_all assinado e2"
    and 7: "saida w2 = saida w1 @ l2"
    and 8: "n2 = n1 + int (saques_realizados l2)"
    by blast
  have "saques_realizados (l1 @ l2) = saques_realizados l1 + saques_realizados l2"
    by (simp add: saques_realizados_def)
  with 1 3 4 5 6 a2 7 8 show ?case
    by (intro exI [of _ s2] exI [of _ e2] exI [of _ n2] exI [of _ w2] exI [of _ "l1 @ l2"])
       simp
qed

lemma executar_todas_conta:
  assumes "executar_todas cs (Finito 0, [], 0) w = (Inr (saldo, extrato, n), w')"
  shows "n = int (saques_realizados (mensagens w w'))"
proof -
  have "Finito 0 = soma_float (map snd ([]::extrato))" and "list_all assinado []"
    by (simp_all add: soma_float_def)
  from executar_todas_inv [OF this, of cs 0 w] assms
  show ?thesis by (auto simp: mensagens_def)
qed


section \<open>Balance and history\<close>

text \<open>
  C1, as the claim states it, fails: the balance is a float and every update of it
  rounds. Three deposits of \<open>10^16\<close>, 1 and 1 leave the balance at \<open>10^16\<close>, while
  the amounts stored in the history add up to \<open>10^16 + 2\<close>.
\<close>

theorem saldo_difere_da_soma_exata:
  "fst (executar_todas
          [Depositar (Finito 10000000000000000), Depositar (Finito 1), Depositar (Finito 1)]
          (Finito 0, [], 0) mundo_vazio)
     = Inr (Finito 10000000000000000,
            [(tipo_deposito, Finito 10000000000000000), (tipo_deposito, Finito 1),
             (tipo_deposito, Finito 1)],
            0)
   \<and> Finito 10000000000000000 \<noteq> Finito (sum_list [10000000000000000, 1, 1])"
  by (simp add: depositar_eq mundo_vazio_def arred_exemplos)

text \<open>
  C1, amended. Start from balance 0, an empty history and no withdrawal made, and run
  any sequence of calls of \<open>depositar\<close> and \<open>sacar\<close>, each with any amount and any
  limits. After each call (that is, after the first \<open>k\<close> calls, for every \<open>k\<close>) the
  run has returned, the balance is the float sum of the amounts stored in the history,
  added in the order of the history with one rounding per addition, and every stored
  amount is signed: positive under the deposit kind, negative under the withdrawal
  kind.
\<close>

theorem saldo_igual_soma_do_extrato:
  "\<exists>saldo extrato n w'.
     executar_todas (take k cs) (Finito 0, [], 0) w = (Inr (saldo, extrato, n), w')
     \<and> saldo = soma_float (map snd extrato)
     \<and> list_all assinado extrato"
proof -
  have "Finito 0 = soma_float (map snd ([]::extrato))" and "list_all assinado []"
    by (simp_all add: soma_float_def)
  from executar_todas_inv [OF this, of "take k cs" 0 w]
  show ?thesis by blast
qed

theorem saldo_igual_soma_do_extrato_witness:
  "fst (executar_todas
          (take 2 [Depositar (Finito 100), Sacar (Finito 30) (Finito 500) 3,
                   Sacar (Finito 1000) (Finito 500) 3])
          (Finito 0, [], 0) mundo_vazio)
     = Inr (Finito 70, [(tipo_deposito, Finito 100), (tipo_saque, Finito (- 30))], 1)
   \<and> Finito 70 = soma_float (map snd [(tipo_deposito, Finito 100),
                                       (tipo_saque, Finito (- 30))])"
  using saldo_igual_soma_do_extrato
    [where k = 2
       and cs = "[Depositar (Finito 100), Sacar (Finito 30) (Finito 500) 3,
                  Sacar (Finito 1000) (Finito 500) 3]"
       and w = mundo_vazio]
  by (simp add: depositar_eq sacar_eq mundo_vazio_def numeral_2_eq_2 soma_float_def
        arred_exemplos)


section \<open>Withdrawal\<close>

text \<open>
  C2. A call of \<open>sacar\<close> with \<open>valor > saldo\<close> reports insufficient funds, whatever
  the limit, the count and the sign of the amount. The checks are made in the order
  funds, limit per withdrawal, number of withdrawals, and the call reports the first
  one that fails and nothing else: what it writes is that one message, followed by
  the audit line.
\<close>

theorem sacar_ordem_das_verificacoes:
  "(maior valor saldo \<longrightarrow>
      mensagens w (snd (sacar saldo valor extrato limite numero_saques limite_saques w))
        = [SaldoInsuficiente, TransacaoExecutada (relogio w) ''sacar''])
   \<and> (\<not> maior valor saldo \<and> maior valor limite \<longrightarrow>
      mensagens w (snd (sacar saldo valor extrato limite numero_saques limite_saques w))
        = [ValorExcedeLimite, TransacaoExecutada (relogio w) ''sacar''])
   \<and> (\<not> maior valor saldo \<and> \<not> maior valor limite \<and> numero_saques \<ge> limite_saques \<longrightarrow>
      mensagens w (snd (sacar saldo valor extrato limite numero_saques limite_saques w))
        = [MaximoSaquesAtingido, TransacaoExecutada (relogio w) ''sacar''])"
  by (simp add: sacar_eq)

theorem sacar_ordem_das_verificacoes_witness:
  "mensagens mundo_vazio
     (snd (sacar (Finito 70) (Finito 1000) [] (Finito 500) 3 3 mundo_vazio))
     = [SaldoInsuficiente, TransacaoExecutada 0 ''sacar'']
   \<and> mensagens mundo_vazio
     (snd (sacar (Finito (- 5)) (Finito (- 3)) [] (Finito 500) 3 3 mundo_vazio))
     = [SaldoInsuficiente, TransacaoExecutada 0 ''sacar'']
   \<and> mensagens mundo_vazio
     (snd (sacar (Finito 1000) (Finito 600) [] (Finito 500) 3 3 mundo_vazio))
     = [ValorExcedeLimite, TransacaoExecutada 0 ''sacar'']
   \<and> mensagens mundo_vazio
     (snd (sacar (Finito 1000) (Finito (- 1)) [] (Finito 500) 3 3 mundo_vazio))
     = [MaximoSaquesAtingido, TransacaoExecutada 0 ''sacar'']"
  using
    sacar_ordem_das_verificacoes [where saldo = "Finito 70" and valor = "Finito 1000"
      and extrato = "[]" and limite = "Finito 500" and numero_saques = 3
      and limite_saques = 3 and w = mundo_vazio]
    sacar_ordem_das_verificacoes [where saldo = "Finito (- 5)" and valor = "Finito (- 3)"
      and extrato = "[]" and limite = "Finito 500" and numero_saques = 3
      and limite_saques = 3 and w = mundo_vazio]
    sacar_ordem_das_verificacoes [where saldo = "Finito 1000" and valor = "Finito 600"
      and extrato = "[]" and limite = "Finito 500" and numero_saques = 3
      and limite_saques = 3 and w = mundo_vazio]
    sacar_ordem_das_verificacoes [where saldo = "Finito 1000" and valor = "Finito (- 1)"
      and extrato = "[]" and limite = "Finito 500" and numero_saques = 3
      and limite_saques = 3 and w = mundo_vazio]
  by (simp add: mundo_vazio_def)

text \<open>
  C3. When the message of a call of \<open>sacar\<close> is one of the four failures
  (insufficient funds, amount over the limit, too many withdrawals, invalid amount),
  the call returns the balance, the history and the withdrawal count it was given.
\<close>

theorem sacar_falha_nao_altera_estado:
  assumes "hd (mensagens w (snd (sacar saldo valor extrato limite numero_saques limite_saques w)))
             \<in> {SaldoInsuficiente, ValorExcedeLimite, MaximoSaquesAtingido, ValorInvalido}"
  shows "fst (sacar saldo valor extrato limite numero_saques limite_saques w)
           = Inr (saldo, extrato, numero_saques)"
  using assms by (simp add: sacar_eq split: if_splits)

theorem sacar_falha_nao_altera_estado_witness:
  "hd (mensagens mundo_vazio
         (snd (sacar (Finito 70) (Finito 0) [(tipo_deposito, Finito 70)] (Finito 500) 1 3
                 mundo_vazio)))
     = ValorInvalido
   \<and> fst (sacar (Finito 70) (Finito 0) [(tipo_deposito, Finito 70)] (Finito 500) 1 3
            mundo_vazio)
     = Inr (Finito 70, [(tipo_deposito, Finito 70)], 1)"
  using sacar_falha_nao_altera_estado [where saldo = "Finito 70" and valor = "Finito 0"
      and extrato = "[(tipo_deposito, Finito 70)]" and limite = "Finito 500"
      and numero_saques = 1 and limite_saques = 3 and w = mundo_vazio]
  by (simp add: sacar_eq mundo_vazio_def mensagens_def)

text \<open>
  C5. After a run from the initial state in which exactly \<open>limite_saques\<close>
  withdrawals succeeded, a call of \<open>sacar\<close> with a positive amount that exceeds
  neither the balance nor the limit per withdrawal reports that the number of
  withdrawals is reached. And a call of \<open>sacar\<close> that succeeds returns the count it
  was given plus one.
\<close>

theorem sacar_limite_de_saques:
  "(executar_todas cs (Finito 0, [], 0) w = (Inr (saldo, extrato, numero_saques), w')
     \<and> int (saques_realizados (mensagens w w')) = limite_saques
     \<and> maior valor (Finito 0) \<and> \<not> maior valor saldo \<and> \<not> maior valor limite \<longrightarrow>
       mensagens w' (snd (sacar saldo valor extrato limite numero_saques limite_saques w'))
         = [MaximoSaquesAtingido, TransacaoExecutada (relogio w') ''sacar''])
   \<and> (hd (mensagens w1 (snd (sacar s v e l n ls w1))) = SaqueRealizado v \<longrightarrow>
       (\<exists>s' e'. fst (sacar s v e l n ls w1) = Inr (s', e', n + 1)))"
  using executar_todas_conta [of cs w saldo extrato numero_saques w']
  by (auto simp: sacar_eq split: if_splits)

theorem sacar_limite_de_saques_witness:
  "executar_todas [Depositar (Finito 100), Sacar (Finito 30) (Finito 500) 1]
     (Finito 0, [], 0) mundo_vazio
     = (Inr (Finito 70, [(tipo_deposito, Finito 100), (tipo_saque, Finito (- 30))], 1),
        \<lparr>entrada = [],
         saida = [DepositoRealizado (Finito 100), TransacaoExecutada 0 ''depositar'',
                  SaqueRealizado (Finito 30), TransacaoExecutada 0 ''sacar''],
         relogio = 0\<rparr>)
   \<and> mensagens
        \<lparr>entrada = [],
         saida = [DepositoRealizado (Finito 100), TransacaoExecutada 0 ''depositar'',
                  SaqueRealizado (Finito 30), TransacaoExecutada 0 ''sacar''],
         relogio = 0\<rparr>
        (snd (sacar (Finito 70) (Finito 10)
                [(tipo_deposito, Finito 100), (tipo_saque, Finito (- 30))] (Finito 500) 1 1
           \<lparr>entrada = [],
            saida = [DepositoRealizado (Finito 100), TransacaoExecutada 0 ''depositar'',
                     SaqueRealizado (Finito 30), TransacaoExecutada 0 ''sacar''],
            relogio = 0\<rparr>))
     = [MaximoSaquesAtingido, TransacaoExecutada 0 ''sacar'']
   \<and> hd (mensagens mundo_vazio
           (snd (sacar (Finito 100) (Finito 10) [] (Finito 500) 0 3 mundo_vazio)))
     = SaqueRealizado (Finito 10)
   \<and> fst (sacar (Finito 100) (Finito 10) [] (Finito 500) 0 3 mundo_vazio)
     = Inr (Finito 90, [(tipo_saque, Finito (- 10))], 1)"
  using sacar_limite_de_saques
    [where cs = "[Depositar (Finito 100), Sacar (Finito 30) (Finito 500) 1]"
       and w = mundo_vazio and saldo = "Finito 70"
       and extrato = "[(tipo_deposito, Finito 100), (tipo_saque, Finito (- 30))]"
       and numero_saques = 1 and limite_saques = 1 and valor = "Finito 10"
       and limite = "Finito 500"
       and w' = "\<lparr>entrada = [],
                  saida = [DepositoRealizado (Finito 100),
                           TransacaoExecutada 0 ''depositar'',
                           SaqueRealizado (Finito 30), TransacaoExecutada 0 ''sacar''],
                  relogio = 0\<rparr>"
       and s = "Finito 100" and v = "Finito 10" and e = "[]" and l = "Finito 500"
       and n = 0 and ls = 3 and ?w1.0 = mundo_vazio]
  by (simp add: depositar_eq sacar_eq mundo_vazio_def mensagens_def saques_realizados_def
        arred_exemplos)


section \<open>Deposit\<close>

text \<open>
  C4, as the claim states it, fails: the balance returned is the float sum, which
  rounds. A deposit of 1 on a balance of \<open>10^16\<close> returns the balance \<open>10^16\<close>, not
  \<open>10^16 + 1\<close>.
\<close>

theorem depositar_arredonda_o_saldo:
  "fst (depositar (Finito 10000000000000000) (Finito 1) [] mundo_vazio)
     = Inr (Finito 10000000000000000, [(tipo_deposito, Finito 1)])
   \<and> Finito 10000000000000000 \<noteq> Finito (10000000000000000 + 1)"
  by (simp add: depositar_eq arred_exemplos)

text \<open>
  C4, amended. A call of \<open>depositar\<close> with a positive amount returns the float sum of
  the balance and the amount (their sum rounded to the nearest float) and the history
  with one entry added at its end, of the deposit kind and with the amount itself.
  With an amount that is not positive (zero, negative or NaN) it returns the balance
  and the history it was given, and its message is the failure.
\<close>

theorem depositar_efeito:
  "(maior valor (Finito 0) \<longrightarrow>
      fst (depositar saldo valor extrato w)
        = Inr (somar saldo valor, extrato @ [(tipo_deposito, valor)]))
   \<and> (\<not> maior valor (Finito 0) \<longrightarrow>
      fst (depositar saldo valor extrato w) = Inr (saldo, extrato)
      \<and> mensagens w (snd (depositar saldo valor extrato w))
          = [OperacaoFalhou, TransacaoExecutada (relogio w) ''depositar''])"
  by (simp add: depositar_eq)

theorem depositar_efeito_witness:
  "fst (depositar (Finito 70) (Finito 30) [(tipo_deposito, Finito 70)] mundo_vazio)
     = Inr (Finito 100, [(tipo_deposito, Finito 70), (tipo_deposito, Finito 30)])
   \<and> fst (depositar (Finito 70) (Finito (- 30)) [(tipo_deposito, Finito 70)] mundo_vazio)
     = Inr (Finito 70, [(tipo_deposito, Finito 70)])
   \<and> mensagens mundo_vazio
       (snd (depositar (Finito 70) (Finito (- 30)) [(tipo_deposito, Finito 70)] mundo_vazio))
     = [OperacaoFalhou, TransacaoExecutada 0 ''depositar'']
   \<and> fst (depositar (Finito 70) NaN [(tipo_deposito, Finito 70)] mundo_vazio)
     = Inr (Finito 70, [(tipo_deposito, Finito 70)])"
  using
    depositar_efeito [where saldo = "Finito 70" and valor = "Finito 30"
      and extrato = "[(tipo_deposito, Finito 70)]" and w = mundo_vazio]
    depositar_efeito [where saldo = "Finito 70" and valor = "Finito (- 30)"
      and extrato = "[(tipo_deposito, Finito 70)]" and w = mundo_vazio]
    depositar_efeito [where saldo = "Finito 70" and valor = NaN
      and extrato = "[(tipo_deposito, Finito 70)]" and w = mundo_vazio]
  by (simp add: mundo_vazio_def arred_exemplos)


section \<open>The decorator is transparent\<close>

text \<open>
  C9. For every operation, arguments and world, the decorated operation gives the
  result of the operation itself, a value or an exception. The world it leaves is the
  one the operation left, with the audit line added after everything the operation
  wrote when the operation returned, and with nothing added when it raised.
\<close>

theorem registrar_transacao_transparente:
  "fst (registrar_transacao nome func args w) = fst (func args w)
   \<and> snd (registrar_transacao nome func args w) =
       (case func args w of
          (Inl e, w') \<Rightarrow> w'
        | (Inr r, w') \<Rightarrow> w'\<lparr>saida := saida w' @ [TransacaoExecutada (relogio w') nome]\<rparr>)"
  by (simp add: registrar_transacao_def imprimir_def split: prod.splits sum.splits)



section \<open>The report\<close>

lemma of_char_lower_char:
  "of_char (lower_char c) =
     (let n = (of_char c :: nat)
      in if (65 \<le> n \<and> n \<le> 90) \<or> (192 \<le> n \<and> n \<le> 222 \<and> n \<noteq> 215)
         then n + 32 else n)"
  by (auto simp: lower_char_def Let_def)

text \<open>Comparing the lower-cased letters is comparing the letters up to case.\<close>

lemma lower_char_eq_iff: "lower_char c = lower_char d \<longleftrightarrow> mesma_letra c d"
proof -
  define f :: "nat \<Rightarrow> nat" where
    "f n = (if (65 \<le> n \<and> n \<le> 90) \<or> (192 \<le> n \<and> n \<le> 222 \<and> n \<noteq> 215)
            then n + 32 else n)" for n
  define U :: "nat \<Rightarrow> bool" where
    "U n = (n \<in> {65..90} \<union> {192..214} \<union> {216..222})" for n
  have L: "of_char (lower_char x) = f (of_char x)" for x
    by (simp add: of_char_lower_char f_def Let_def)
  have arit: "(n = m \<or> (U n \<and> m = n + 32) \<or> (U m \<and> n = m + 32)) \<longleftrightarrow> f n = f m" for n m
    unfolding f_def U_def by (simp only: Un_iff atLeastAtMost_iff) presburger
  have "mesma_letra c d \<longleftrightarrow>
          ((of_char c :: nat) = of_char d
            \<or> (U (of_char c) \<and> (of_char d :: nat) = of_char c + 32)
            \<or> (U (of_char d) \<and> (of_char c :: nat) = of_char d + 32))"
    unfolding mesma_letra_def minuscula_de_def maiuscula_def U_def
    by (simp only: of_char_eq_iff)
  also have "\<dots> \<longleftrightarrow> f (of_char c) = f (of_char d)"
    by (rule arit)
  also have "\<dots> \<longleftrightarrow> (of_char (lower_char c) :: nat) = of_char (lower_char d)"
    unfolding L ..
  also have "\<dots> \<longleftrightarrow> lower_char c = lower_char d"
    by (simp only: of_char_eq_iff)
  finally show ?thesis ..
qed

lemma lower_eq_iff: "lower a = lower b \<longleftrightarrow> igual_sem_caixa a b"
  unfolding lower_def igual_sem_caixa_def
proof (induction a arbitrary: b)
  case Nil
  then show ?case by simp
next
  case (Cons c a)
  then show ?case by (cases b) (simp_all add: lower_char_eq_iff)
qed

lemma gerar_relatorio_None: "gerar_relatorio h None = h"
  by (induction h) simp_all

lemma gerar_relatorio_Some:
  "gerar_relatorio h (Some f) = filter (\<lambda>t. igual_sem_caixa (fst t) f) h"
  by (induction h) (simp_all add: lower_eq_iff)

lemma lower_exemplos:
  "lower ''SAQUE'' = ''saque''"
  "lower ''saque'' = ''saque''"
  "lower tipo_saque = ''saque''"
  "lower tipo_deposito = ''dep'' @ [CHR 0xF3] @ ''sito''"
  "lower (''DEP'' @ [CHR 0xD3] @ ''SITO'') = ''dep'' @ [CHR 0xF3] @ ''sito''"
  "lower ''deposito'' = ''deposito''"
  by code_simp+

text \<open>The capital accented O (\<open>0xD3\<close>) and the small one (\<open>0xF3\<close>) are the same letter;
  the accented o and the plain o are not, nor are two different letters.\<close>

lemma mesma_letra_exemplos:
  "mesma_letra (CHR 0xD3) (CHR 0xF3)"
  "mesma_letra (CHR 0xF3) (CHR 0xD3)"
  "mesma_letra CHR ''S'' CHR ''s''"
  "\<not> mesma_letra (CHR 0xF3) CHR ''o''"
  "\<not> mesma_letra (CHR 0xF3) CHR ''O''"
  "\<not> mesma_letra CHR ''D'' CHR ''S''"
  by (simp_all add: mesma_letra_def minuscula_de_def maiuscula_def)

text \<open>
  C6. Without a filter the report yields the history itself, in its order. With a
  filter string it yields the entries whose kind matches the filter up to the case of
  the letters, and no others, in the order of the history; in both cases what is
  yielded is a subsequence of the history.
\<close>

theorem gerar_relatorio_filtra:
  "gerar_relatorio h None = h
   \<and> gerar_relatorio h (Some f) = filter (\<lambda>t. igual_sem_caixa (fst t) f) h
   \<and> subseq (gerar_relatorio h tipo) h"
proof -
  have "subseq (gerar_relatorio h tipo) h"
    by (cases tipo) (simp_all add: gerar_relatorio_None gerar_relatorio_Some)
  then show ?thesis
    by (simp add: gerar_relatorio_None gerar_relatorio_Some)
qed

text \<open>The filter in capitals, accent included, selects the deposits; the filter
  \<open>SAQUE\<close> selects the withdrawals; the filter without the accent selects nothing.\<close>

theorem gerar_relatorio_filtra_witness:
  "gerar_relatorio [(tipo_deposito, Finito 100), (tipo_saque, Finito (- 30))] None
     = [(tipo_deposito, Finito 100), (tipo_saque, Finito (- 30))]
   \<and> gerar_relatorio [(tipo_deposito, Finito 100), (tipo_saque, Finito (- 30))]
       (Some (''DEP'' @ [CHR 0xD3] @ ''SITO''))
     = [(tipo_deposito, Finito 100)]
   \<and> gerar_relatorio [(tipo_deposito, Finito 100), (tipo_saque, Finito (- 30))]
       (Some ''SAQUE'')
     = [(tipo_saque, Finito (- 30))]
   \<and> gerar_relatorio [(tipo_deposito, Finito 100), (tipo_saque, Finito (- 30))]
       (Some ''deposito'')
     = []
   \<and> igual_sem_caixa tipo_deposito (''DEP'' @ [CHR 0xD3] @ ''SITO'')
   \<and> \<not> igual_sem_caixa tipo_saque (''DEP'' @ [CHR 0xD3] @ ''SITO'')
   \<and> \<not> igual_sem_caixa tipo_deposito ''deposito''"
proof -
  let ?h = "[(tipo_deposito, Finito 100), (tipo_saque, Finito (- 30))]"
  have a: "igual_sem_caixa tipo_deposito (''DEP'' @ [CHR 0xD3] @ ''SITO'')"
    and b: "\<not> igual_sem_caixa tipo_saque (''DEP'' @ [CHR 0xD3] @ ''SITO'')"
    and c: "\<not> igual_sem_caixa tipo_deposito ''deposito''"
    and d: "igual_sem_caixa tipo_saque ''SAQUE''"
    and e: "\<not> igual_sem_caixa tipo_deposito ''SAQUE''"
    and f: "\<not> igual_sem_caixa tipo_saque ''deposito''"
    by (simp_all add: igual_sem_caixa_def tipo_deposito_def tipo_saque_def
          mesma_letra_def minuscula_de_def maiuscula_def)
  from gerar_relatorio_filtra [where h = ?h and f = "''DEP'' @ [CHR 0xD3] @ ''SITO''"
         and tipo = None]
       gerar_relatorio_filtra [where h = ?h and f = "''SAQUE''" and tipo = None]
       gerar_relatorio_filtra [where h = ?h and f = "''deposito''" and tipo = None]
       a b c d e f
  show ?thesis by simp
qed


section \<open>The account iterator\<close>

lemma resumo_conta_nao_para: "resumo_conta c \<noteq> Inl StopIteration"
  by (simp add: resumo_conta_def item_def split: option.splits sum.splits valor.splits)

lemma resumo_conta_bem_formada:
  assumes "conta_bem_formada c"
  shows "\<exists>t. resumo_conta c = Inr t \<and> corresponde c t"
  using assms
  by (auto simp: conta_bem_formada_def resumo_conta_def corresponde_def item_def
           split: option.splits valor.splits)

lemma proximo_fim_estado:
  "fst (proximo it) = Inl StopIteration \<Longrightarrow> snd (proximo it) = it"
  by (simp add: proximo_def Let_def resumo_conta_nao_para split: if_splits)

lemma avancar_fim:
  "fst (proximo it) = Inl StopIteration \<Longrightarrow> avancar n it = it"
  by (induction n) (simp_all add: proximo_fim_estado)

text \<open>The loop started at any index: it yields the summaries of the accounts from
  that index on and leaves the index at the end of the list.\<close>

lemma esgotar_geral:
  assumes "list_all conta_bem_formada (drop (indice it) (contas it))"
  shows "\<exists>ts. esgotar it = (Inr ts, it\<lparr>indice := max (indice it) (length (contas it))\<rparr>)
            \<and> list_all2 corresponde (drop (indice it) (contas it)) ts"
  using assms
proof (induction "length (contas it) - indice it" arbitrary: it)
  case 0
  then have fim: "\<not> indice it < length (contas it)" by simp
  then have "esgotar it = (Inr [], it)"
    by (subst esgotar.simps) (simp add: proximo_def)
  moreover from fim have "it\<lparr>indice := max (indice it) (length (contas it))\<rparr> = it"
    by (simp add: max_def)
  ultimately show ?case using fim by simp
next
  case (Suc m)
  then have lt: "indice it < length (contas it)" by simp
  define c where "c = contas it ! indice it"
  define it' where "it' = it\<lparr>indice := indice it + 1\<rparr>"
  from lt have d: "drop (indice it) (contas it) = c # drop (indice it') (contas it')"
    by (simp add: c_def it'_def Cons_nth_drop_Suc)
  with Suc.prems have okc: "conta_bem_formada c"
    and okr: "list_all conta_bem_formada (drop (indice it') (contas it'))"
    by simp_all
  from resumo_conta_bem_formada [OF okc] obtain t where
    t: "resumo_conta c = Inr t" "corresponde c t" by blast
  from Suc.hyps(2) lt have "m = length (contas it') - indice it'"
    by (simp add: it'_def)
  from Suc.hyps(1) [OF this okr] obtain ts where
    ts: "esgotar it' = (Inr ts, it'\<lparr>indice := max (indice it') (length (contas it'))\<rparr>)"
        "list_all2 corresponde (drop (indice it') (contas it')) ts"
    by blast
  from lt t have p: "proximo it = (Inr t, it')"
    by (simp add: proximo_def Let_def c_def it'_def)
  have fin: "it'\<lparr>indice := max (indice it') (length (contas it'))\<rparr>
               = it\<lparr>indice := max (indice it) (length (contas it))\<rparr>"
    using lt by (simp add: it'_def max_def)
  have "esgotar it = (Inr (t # ts), it\<lparr>indice := max (indice it) (length (contas it))\<rparr>)"
    by (subst esgotar.simps) (simp add: p ts(1) fin)
  with d t(2) ts(2) show ?case by simp
qed

lemma esgotar_contas_exemplo:
  "fst (esgotar (ContasIterator contas_exemplo))
     = Inr [(VInt 1, ''Ana'', VInt 0), (VInt 2, ''Ana'', VInt 0)]"
  by (simp add: esgotar.simps proximo_def ContasIterator_def contas_exemplo_def
        resumo_conta_def item_def ana_def Let_def)

text \<open>
  C7. For a directory whose accounts have a number, a balance and an owner with a
  name, the loop over a fresh iterator ends and yields one tuple per account, in the
  order of the directory, each tuple holding the number of its account, the name of
  its owner and its balance. The loop leaves the directory as it was, and the loop
  over a second fresh iterator on it yields the same tuples.
\<close>

theorem iterador_percorre_todas_as_contas:
  assumes "list_all conta_bem_formada cs"
  shows "\<exists>ts it'. esgotar (ContasIterator cs) = (Inr ts, it')
           \<and> list_all2 corresponde cs ts
           \<and> contas it' = cs
           \<and> fst (esgotar (ContasIterator (contas it'))) = Inr ts"
proof -
  from esgotar_geral [of "ContasIterator cs"] assms
  obtain ts where
    "esgotar (ContasIterator cs)
       = (Inr ts, (ContasIterator cs)\<lparr>indice := max 0 (length cs)\<rparr>)"
    "list_all2 corresponde cs ts"
    by (auto simp: ContasIterator_def)
  then show ?thesis by (auto simp: ContasIterator_def)
qed

theorem iterador_percorre_todas_as_contas_witness:
  "list_all conta_bem_formada contas_exemplo
   \<and> fst (esgotar (ContasIterator contas_exemplo))
       = Inr [(VInt 1, ''Ana'', VInt 0), (VInt 2, ''Ana'', VInt 0)]
   \<and> list_all2 corresponde contas_exemplo [(VInt 1, ''Ana'', VInt 0), (VInt 2, ''Ana'', VInt 0)]
   \<and> contas (snd (esgotar (ContasIterator contas_exemplo))) = contas_exemplo"
proof -
  have ok: "list_all conta_bem_formada contas_exemplo"
    by (simp add: contas_exemplo_def conta_bem_formada_def ana_def)
  from iterador_percorre_todas_as_contas [OF ok] esgotar_contas_exemplo ok
  show ?thesis by auto
qed

text \<open>
  C10, as the claim states it, fails: an exhausted instance does not stay exhausted
  when the directory grows. On a fresh iterator over the empty directory the first
  call of \<open>__next__\<close> raises \<open>StopIteration\<close>; after the caller has appended an
  account to the directory, the next call on the same instance yields that account.
\<close>

theorem iterador_esgotado_retoma:
  "fst (proximo (ContasIterator [])) = Inl StopIteration
   \<and> fst (proximo (contas_append (hd contas_exemplo) (snd (proximo (ContasIterator [])))))
       = Inr (VInt 1, ''Ana'', VInt 0)"
  by (simp add: proximo_def ContasIterator_def contas_append_def contas_exemplo_def
        resumo_conta_def item_def ana_def Let_def)

text \<open>
  C10, amended. When a call of \<open>__next__\<close> on an instance raises \<open>StopIteration\<close>,
  so does the call that follows any number of further calls on that instance, as long
  as nothing is appended to the directory in between. When an account is appended to
  the directory of an instance that has reached the end of it, the next call yields
  the summary of that account. On a fresh iterator over the empty directory the first
  call raises \<open>StopIteration\<close>, and the loop yields nothing.
\<close>

theorem iterador_esgotado_permanece_esgotado:
  "(fst (proximo it) = Inl StopIteration \<longrightarrow>
      fst (proximo (avancar n (snd (proximo it)))) = Inl StopIteration)
   \<and> (indice it = length (contas it) \<longrightarrow>
      fst (proximo (contas_append c (avancar n it))) = resumo_conta c)
   \<and> fst (proximo (ContasIterator [])) = Inl StopIteration
   \<and> esgotar (ContasIterator []) = (Inr [], ContasIterator [])"
proof -
  have "esgotar (ContasIterator []) = (Inr [], ContasIterator [])"
    by (subst esgotar.simps) (simp add: proximo_def ContasIterator_def)
  moreover have "fst (proximo (ContasIterator [])) = Inl StopIteration"
    by (simp add: proximo_def ContasIterator_def)
  moreover have "fst (proximo (contas_append c (avancar n it))) = resumo_conta c"
    if fim: "indice it = length (contas it)"
  proof -
    from fim have "fst (proximo it) = Inl StopIteration"
      by (simp add: proximo_def)
    then have "avancar n it = it" by (rule avancar_fim)
    with fim show ?thesis
      by (simp add: proximo_def contas_append_def Let_def)
  qed
  ultimately show ?thesis
    by (simp add: proximo_fim_estado avancar_fim)
qed

theorem iterador_esgotado_permanece_esgotado_witness:
  "fst (proximo \<lparr>contas = contas_exemplo, indice = 2\<rparr>) = Inl StopIteration
   \<and> fst (proximo (avancar 3 (snd (proximo \<lparr>contas = contas_exemplo, indice = 2\<rparr>))))
       = Inl StopIteration
   \<and> fst (proximo (contas_append (hd contas_exemplo)
                     (avancar 3 \<lparr>contas = contas_exemplo, indice = 2\<rparr>)))
       = Inr (VInt 1, ''Ana'', VInt 0)"
proof -
  have h: "fst (proximo \<lparr>contas = contas_exemplo, indice = 2\<rparr>) = Inl StopIteration"
    and i: "indice \<lparr>contas = contas_exemplo, indice = 2\<rparr>
              = length (contas \<lparr>contas = contas_exemplo, indice = 2\<rparr>)"
    and r: "resumo_conta (hd contas_exemplo) = Inr (VInt 1, ''Ana'', VInt 0)"
    by (simp_all add: proximo_def contas_exemplo_def resumo_conta_def item_def ana_def)
  with iterador_esgotado_permanece_esgotado
         [where it = "\<lparr>contas = contas_exemplo, indice = 2\<rparr>" and n = 3
            and c = "hd contas_exemplo"]
  show ?thesis by simp
qed


section \<open>Opening an account\<close>

lemma usuarios_filtrados_eq:
  assumes "\<forall>u\<in>set us. map_of u ''cpf'' \<noteq> None"
  shows "usuarios_filtrados cpf us = Inr (filter (\<lambda>u. map_of u ''cpf'' = Some cpf) us)"
  using assms by (induction us) (auto simp: item_def)

lemma primeiro_filtrado:
  "(case filter P xs of [] \<Rightarrow> None | x # _ \<Rightarrow> Some x) = find P xs"
  by (induction xs) simp_all

lemma filtrar_usuario_eq:
  assumes "\<forall>u\<in>set us. map_of u ''cpf'' \<noteq> None"
  shows "filtrar_usuario cpf us = Inr (find (\<lambda>u. map_of u ''cpf'' = Some cpf) us)"
proof -
  have "filtrar_usuario cpf us =
          Inr (case filter (\<lambda>u. map_of u ''cpf'' = Some cpf) us of
                 [] \<Rightarrow> None | x # _ \<Rightarrow> Some x)"
    by (simp add: filtrar_usuario_def usuarios_filtrados_eq [OF assms] split: list.splits)
  then show ?thesis by (simp only: primeiro_filtrado)
qed

text \<open>
  C8, as the claim states it, fails: the account that \<open>criar_conta\<close> returns for a
  registered CPF has the five entries \<open>agencia\<close>, \<open>numero_conta\<close>, \<open>usuario\<close>,
  \<open>saldo\<close> and \<open>extrato\<close>, and no withdrawal count; \<open>numero_saques\<close> is a variable
  of \<open>main\<close>, shared by all accounts.
\<close>

theorem criar_conta_sem_numero_saques:
  "fst (criar_conta ''0001'' 1 [ana] \<lparr>entrada = [''111''], saida = [], relogio = 0\<rparr>)
     = Inr (Some [(''agencia'', VStr ''0001''), (''numero_conta'', VInt 1),
                  (''usuario'', VUsuario ana), (''saldo'', VInt 0),
                  (''extrato'', VExtrato [])])
   \<and> map_of [(''agencia'', VStr ''0001''), (''numero_conta'', VInt 1),
              (''usuario'', VUsuario ana), (''saldo'', VInt 0),
              (''extrato'', VExtrato [])]
        ''numero_saques'' = None"
  by (simp add: criar_conta_def criar_conta_corpo_def registrar_transacao_def ler_def
        imprimir_def filtrar_usuario_def item_def ana_def)

text \<open>
  C8, amended. Let every registered user have a CPF and let \<open>cpf\<close> be the line that
  \<open>criar_conta\<close> reads. When no user has that CPF the call returns \<open>None\<close> and
  reports that the user was not found. Otherwise it returns a new account made of
  exactly five entries: the agency and the account number it was given, the first
  registered user with that CPF as owner, balance 0 and an empty history.
\<close>

theorem criar_conta_efeito:
  assumes "\<forall>u\<in>set usuarios. map_of u ''cpf'' \<noteq> None" and "entrada w = cpf # resto"
  shows "case find (\<lambda>u. map_of u ''cpf'' = Some cpf) usuarios of
           None \<Rightarrow>
             criar_conta agencia numero_conta usuarios w =
               (Inr None,
                w\<lparr>entrada := resto,
                  saida := saida w @ [InformeCpfTitular, UsuarioNaoEncontrado,
                                      TransacaoExecutada (relogio w) ''criar_conta'']\<rparr>)
         | Some u \<Rightarrow>
             criar_conta agencia numero_conta usuarios w =
               (Inr (Some [(''agencia'', VStr agencia),
                           (''numero_conta'', VInt numero_conta),
                           (''usuario'', VUsuario u),
                           (''saldo'', VInt 0),
                           (''extrato'', VExtrato [])]),
                w\<lparr>entrada := resto,
                  saida := saida w @ [InformeCpfTitular, ContaCriada,
                                      TransacaoExecutada (relogio w) ''criar_conta'']\<rparr>)"
proof (cases "find (\<lambda>u. map_of u ''cpf'' = Some cpf) usuarios")
  case None
  with assms show ?thesis
    by (simp add: criar_conta_def criar_conta_corpo_def registrar_transacao_def ler_def
          imprimir_def filtrar_usuario_eq)
next
  case (Some u)
  then have "map_of u ''cpf'' = Some cpf"
    by (auto simp: find_Some_iff)
  then have "u \<noteq> []" by auto
  with Some assms show ?thesis
    by (simp add: criar_conta_def criar_conta_corpo_def registrar_transacao_def ler_def
          imprimir_def filtrar_usuario_eq)
qed

theorem criar_conta_efeito_witness:
  "criar_conta ''0001'' 1 [ana] \<lparr>entrada = [''111''], saida = [], relogio = 0\<rparr>
     = (Inr (Some [(''agencia'', VStr ''0001''), (''numero_conta'', VInt 1),
                   (''usuario'', VUsuario ana), (''saldo'', VInt 0),
                   (''extrato'', VExtrato [])]),
        \<lparr>entrada = [],
         saida = [InformeCpfTitular, ContaCriada, TransacaoExecutada 0 ''criar_conta''],
         relogio = 0\<rparr>)
   \<and> criar_conta ''0001'' 1 [ana] \<lparr>entrada = [''222''], saida = [], relogio = 0\<rparr>
     = (Inr None,
        \<lparr>entrada = [],
         saida = [InformeCpfTitular, UsuarioNaoEncontrado,
                  TransacaoExecutada 0 ''criar_conta''],
         relogio = 0\<rparr>)"
proof -
  have a: "\<forall>u\<in>set [ana]. map_of u ''cpf'' \<noteq> None"
    by (simp add: ana_def)
  have b: "entrada \<lparr>entrada = [''111''], saida = [], relogio = 0\<rparr> = ''111'' # []"
    and c: "entrada \<lparr>entrada = [''222''], saida = [], relogio = 0\<rparr> = ''222'' # []"
    by simp_all
  have f1: "find (\<lambda>u. map_of u ''cpf'' = Some ''111'') [ana] = Some ana"
    and f2: "find (\<lambda>u. map_of u ''cpf'' = Some ''222'') [ana] = None"
    by (simp_all add: ana_def)
  from criar_conta_efeito [OF a b, of "''0001''" 1]
       criar_conta_efeito [OF a c, of "''0001''" 1] f1 f2
  show ?thesis by simp
qed


text \<open>The accounts that \<open>criar_conta\<close> returns, for users that have a name, are the
  accounts the iterator can summarise.\<close>

lemma usuarios_filtrados_subset:
  "usuarios_filtrados cpf us = Inr fs \<Longrightarrow> set fs \<subseteq> set us"
  by (induction us arbitrary: fs) (auto split: sum.splits if_splits)

lemma filtrar_usuario_membro:
  assumes "filtrar_usuario cpf us = Inr (Some u)"
  shows "u \<in> set us"
proof -
  from assms obtain fs where "usuarios_filtrados cpf us = Inr (u # fs)"
    by (auto simp: filtrar_usuario_def split: sum.splits list.splits)
  from usuarios_filtrados_subset [OF this] show ?thesis by simp
qed

lemma criar_conta_bem_formada:
  assumes "criar_conta agencia numero_conta usuarios w = (Inr (Some c), w')"
    and "\<forall>u\<in>set usuarios. map_of u ''nome'' \<noteq> None"
  shows "conta_bem_formada c"
proof -
  from assms(1) obtain cpf u where
    u: "filtrar_usuario cpf usuarios = Inr (Some u)"
    and c: "c = [(''agencia'', VStr agencia), (''numero_conta'', VInt numero_conta),
                 (''usuario'', VUsuario u), (''saldo'', VInt 0), (''extrato'', VExtrato [])]"
    by (auto simp: criar_conta_def criar_conta_corpo_def registrar_transacao_def
             split: prod.splits sum.splits if_splits)
  from filtrar_usuario_membro [OF u] assms(2) have "map_of u ''nome'' \<noteq> None" by blast
  with c show ?thesis by (simp add: conta_bem_formada_def)
qed

end
